theory Spec2Isabelle
  imports Complex_Main "HOL-Library.Log_Nat"
begin

section \<open>Data model (models/User.js)\<close>

text \<open>
  The users collection has a unique index on \<open>walletAddress\<close>, so it is a map from the
  wallet address to the rest of the document. Only the fields the ledger and the job
  orchestrator touch are kept. Timestamps are left out.
\<close>

subsection \<open>JavaScript numbers\<close>

text \<open>
  A JavaScript number is a binary64 value. The finite ones are rationals, and a number
  is modelled as the rational it denotes. Every arithmetic operation of the deposit
  service gives the exact result rounded to the nearest binary64 value, ties to the even
  significand (\<open>fl\<close>), subnormal results included. Infinity and NaN are not modelled:
  where the magnitude of a result reaches \<open>2^1024\<close> the code goes on with Infinity and
  \<open>fl\<close> rounds as if the exponent had no upper bound. The two debits subtract 1 and
  0.25 from a balance that is at least as large, which is exact on binary64 values below
  \<open>2^51\<close>; they are written with the exact subtraction.
\<close>

text \<open>\<open>ilog2 a\<close> is the integer \<open>e\<close> with \<open>2^e \<le> a < 2^(e+1)\<close>, for positive \<open>a\<close>.\<close>

definition ilog2 :: "rat \<Rightarrow> int" where
  "ilog2 a =
     (let k = bitlen (fst (quotient_of a)) - bitlen (snd (quotient_of a))
      in if 2 powi k \<le> a then k else k - 1)"

definition round_half_even :: "rat \<Rightarrow> int" where
  "round_half_even q =
     (let f = \<lfloor>q\<rfloor>; r = q - of_int f
      in if r < 1 / 2 then f else if 1 / 2 < r then f + 1 else if even f then f else f + 1)"

definition fl :: "rat \<Rightarrow> rat" where
  "fl x =
     (if x = 0 then 0
      else let e = max (ilog2 \<bar>x\<bar>) (- 1022);
               ulp = 2 powi (e - 52)
           in of_int (round_half_even (x / ulp)) * ulp)"

definition js_add :: "rat \<Rightarrow> rat \<Rightarrow> rat" where
  "js_add x y = fl (x + y)"

definition js_mul :: "rat \<Rightarrow> rat \<Rightarrow> rat" where
  "js_mul x y = fl (x * y)"

definition js_div :: "rat \<Rightarrow> rat \<Rightarrow> rat" where
  "js_div x y = fl (x / y)"

text \<open>
  \<open>parseInt(s, 10)\<close> of a feed amount: the amount is given as the integer its digits
  denote, and the result is the nearest binary64 value.
\<close>

definition parseInt :: "int \<Rightarrow> rat" where
  "parseInt n = fl (of_int n)"

record generated_file =
  requestId :: string
  content :: string

record processed_transaction =
  txid :: string
  coinType :: string
  amount :: rat
  creditsAdded :: rat

record user =
  credits :: rat
  generatedFiles :: "generated_file list"
  processedTransactions :: "processed_transaction list"

type_synonym users = "string \<rightharpoonup> user"

section \<open>Deposit service (services/depositService.js)\<close>

text \<open>\<open>CREDIT_CONVERSION\<close>: 1 credit = 1 KAS, 1 credit = 800 KASPER.\<close>

definition CREDIT_CONVERSION_KAS :: rat where
  "CREDIT_CONVERSION_KAS = js_div 1 1"

definition CREDIT_CONVERSION_KASPER :: rat where
  "CREDIT_CONVERSION_KASPER = js_div 1 800"

text \<open>\<open>String.prototype.toLowerCase\<close> on ASCII text.\<close>

definition lower_char :: "char \<Rightarrow> char" where
  "lower_char c =
     (case map_of (zip ''ABCDEFGHIJKLMNOPQRSTUVWXYZ'' ''abcdefghijklmnopqrstuvwxyz'') c of
        None \<Rightarrow> c
      | Some l \<Rightarrow> l)"

definition toLowerCase :: "string \<Rightarrow> string" where
  "toLowerCase s = map lower_char s"

text \<open>
  One entry of the KRC20 operation list. \<open>tx_op\<close> is \<open>None\<close> when the entry has no
  \<open>op\<close> field: \<open>opType.toLowerCase()\<close> then throws, and the \<open>catch\<close> around the loop ends
  the scan, keeping what the earlier entries credited.
\<close>

record krc20_op =
  tx_hashRev :: string
  tx_amt :: int
  tx_op :: "string option"
  tx_to :: string

record kasper_response =
  message :: string
  result :: "krc20_op list option"

text \<open>\<open>user.processedTransactions.some((t) => t.txid === h)\<close>\<close>

definition alreadyProcessed :: "user \<Rightarrow> string \<Rightarrow> bool" where
  "alreadyProcessed u h = list_ex (\<lambda>t. txid t = h) (processedTransactions u)"

text \<open>The body of the loop of \<open>processUserKasperDeposits\<close>; \<open>None\<close> is the throw.\<close>

definition kasper_step :: "string \<Rightarrow> user \<Rightarrow> krc20_op \<Rightarrow> user option" where
  "kasper_step walletAddress u tx =
     (let hashRev = tx_hashRev tx;
          amt = js_div (parseInt (tx_amt tx)) (10 ^ 8);
          toAddress = tx_to tx;
          processed = alreadyProcessed u hashRev
      in case tx_op tx of
           None \<Rightarrow> None
         | Some opType \<Rightarrow>
             if toLowerCase opType = ''transfer'' \<and> toAddress = walletAddress \<and> \<not> processed
             then let creditsToAdd = js_mul amt CREDIT_CONVERSION_KASPER
                  in Some (u\<lparr>credits := js_add (credits u) creditsToAdd,
                             processedTransactions := processedTransactions u @
                               [\<lparr>txid = hashRev, coinType = ''KASPER'', amount = amt,
                                 creditsAdded = creditsToAdd\<rparr>]\<rparr>)
             else Some u)"

fun kasper_loop :: "string \<Rightarrow> user \<Rightarrow> krc20_op list \<Rightarrow> user" where
  "kasper_loop walletAddress u [] = u"
| "kasper_loop walletAddress u (tx # txs) =
     (case kasper_step walletAddress u tx of
        None \<Rightarrow> u
      | Some u' \<Rightarrow> kasper_loop walletAddress u' txs)"

text \<open>
  \<open>processUserKasperDeposits\<close>: the first argument is what \<open>axios.get\<close> gave, \<open>None\<close>
  when it rejected (logged, nothing credited).
\<close>

definition processUserKasperDeposits ::
  "kasper_response option \<Rightarrow> string \<Rightarrow> user \<Rightarrow> user" where
  "processUserKasperDeposits response walletAddress u =
     (case response of
        None \<Rightarrow> u
      | Some r \<Rightarrow>
          if message r \<noteq> ''successful'' then u
          else kasper_loop walletAddress u (case result r of None \<Rightarrow> [] | Some txs \<Rightarrow> txs))"

record kaspa_output =
  script_public_key_address :: string
  out_amount :: int

record kaspa_tx =
  tx_hash :: string
  outputs :: "kaspa_output list option"

text \<open>The inner loop: the sum of the outputs that pay the user, in KAS.\<close>

fun sumToUser :: "string \<Rightarrow> rat \<Rightarrow> kaspa_output list \<Rightarrow> rat" where
  "sumToUser kaspaAddress acc [] = acc"
| "sumToUser kaspaAddress acc (out # outs) =
     (if script_public_key_address out = kaspaAddress
      then sumToUser kaspaAddress (js_add acc (js_div (parseInt (out_amount out)) (10 ^ 8))) outs
      else sumToUser kaspaAddress acc outs)"

definition kaspa_step :: "string \<Rightarrow> user \<Rightarrow> kaspa_tx \<Rightarrow> user" where
  "kaspa_step kaspaAddress u tx =
     (let txHash = tx_hash tx
      in case outputs tx of
           None \<Rightarrow> u
         | Some [] \<Rightarrow> u
         | Some outs \<Rightarrow>
             let s = sumToUser kaspaAddress 0 outs
             in if 0 < s then
                  if \<not> alreadyProcessed u txHash
                  then let creditsToAdd = js_mul s CREDIT_CONVERSION_KAS
                       in u\<lparr>credits := js_add (credits u) creditsToAdd,
                            processedTransactions := processedTransactions u @
                              [\<lparr>txid = txHash, coinType = ''KAS'', amount = s,
                                creditsAdded = creditsToAdd\<rparr>]\<rparr>
                  else u
                else u)"

fun kaspa_loop :: "string \<Rightarrow> user \<Rightarrow> kaspa_tx list \<Rightarrow> user" where
  "kaspa_loop kaspaAddress u [] = u"
| "kaspa_loop kaspaAddress u (tx # txs) = kaspa_loop kaspaAddress (kaspa_step kaspaAddress u tx) txs"





section \<open>Generation jobs (server.js)\<close>

text \<open>
  An entry of \<open>progressMap\<close>. The status strings \<open>'in-progress'\<close>, \<open>'done'\<close> and
  \<open>'error'\<close> are the three constructors.
\<close>

datatype job_status = InProgress | Done | Error

record job_images =
  navLogo :: "string option"
  heroBg :: "string option"
  footerImg :: "string option"

record job =
  status :: job_status
  progress :: nat
  code :: "string option"
  images :: job_images

text \<open>
  Every assignment to a field of the entry is recorded: a trace is the entry as it is now
  together with its earlier snapshots, the newest first.
\<close>

type_synonym job_trace = "job \<times> job list"

fun assign :: "(job \<Rightarrow> job) \<Rightarrow> job_trace \<Rightarrow> job_trace" where
  "assign f (j, earlier) = (f j, j # earlier)"

fun snapshots :: "job_trace \<Rightarrow> job list" where
  "snapshots (j, earlier) = rev (j # earlier)"

record world =
  users :: users
  progressMap :: "string \<rightharpoonup> job"

datatype response =
    Status400 string
  | Status500 string
  | StartedJob string
  | SectionResult string "string option" rat

text \<open>\<open>!x\<close> for a string field of a request body: missing or empty.\<close>

definition falsy :: "string option \<Rightarrow> bool" where
  "falsy x = (x = None \<or> x = Some [])"

text \<open>\<open>String.prototype.trim\<close> on ASCII text, and \<open>s.replace(/```+/g, "")\<close>.\<close>

definition is_space :: "char \<Rightarrow> bool" where
  "is_space c = (c \<in> set [CHR 0x09, CHR 0x0A, CHR 0x0B, CHR 0x0C, CHR 0x0D, CHR '' ''])"

definition trim :: "string \<Rightarrow> string" where
  "trim s = rev (dropWhile is_space (rev (dropWhile is_space s)))"

fun strip_fences_from :: "nat \<Rightarrow> string \<Rightarrow> string" where
  "strip_fences_from k [] = (if 3 \<le> k then [] else replicate k (CHR 0x60))"
| "strip_fences_from k (c # cs) =
     (if c = CHR 0x60 then strip_fences_from (Suc k) cs
      else (if 3 \<le> k then [] else replicate k (CHR 0x60)) @ c # strip_fences_from 0 cs)"

definition strip_fences :: "string \<Rightarrow> string" where
  "strip_fences s = strip_fences_from 0 s"

text \<open>
  \<open>User.findOneAndUpdate({walletAddress, <filter>}, {$inc: {credits: inc}}, {new: true})\<close>:
  one atomic step of the store, returning the updated document.
\<close>

definition findOneAndUpdate ::
  "(user \<Rightarrow> bool) \<Rightarrow> rat \<Rightarrow> string \<Rightarrow> users \<Rightarrow> user option \<times> users" where
  "findOneAndUpdate matches inc walletAddress db =
     (case db walletAddress of
        None \<Rightarrow> (None, db)
      | Some u \<Rightarrow>
          if matches u
          then let u' = u\<lparr>credits := credits u + inc\<rparr> in (Some u', db(walletAddress \<mapsto> u'))
          else (None, db))"

record user_inputs =
  coinName :: "string option"
  colorPalette :: "string option"
  projectDesc :: "string option"

text \<open>
  What the providers and the store answer during one background generation: the text of
  the chat completion (\<open>None\<close> when the call rejects or the reply has no such text), the
  bytes of the two images in base64 (\<open>None\<close> when generating or fetching one fails), and
  whether the final \<open>user.save()\<close> succeeds.
\<close>

record gen_outcomes =
  chat_completion :: "string option"
  logo_image :: "string option"
  hero_image :: "string option"
  gen_save_ok :: bool

definition logo_fallback :: string where
  "logo_fallback = ''data:image/png;base64,iVBORw0KGgoAAAANSUhEUgAAAAUAAAAFCAYAAACNbyblAAAAHElEQ...''"

definition hero_fallback :: string where
  "hero_fallback = ''data:image/png;base64,iVBORw0KGgoAAAANSUhEUgAAAAU...''"

definition data_url :: "string \<Rightarrow> string" where
  "data_url b = ''data:image/png;base64,'' @ b"

text \<open>\<open>userInputs || {}\<close>\<close>

definition or_empty :: "user_inputs option \<Rightarrow> user_inputs" where
  "or_empty userInputs =
     (case userInputs of
        None \<Rightarrow> \<lparr>coinName = None, colorPalette = None, projectDesc = None\<rparr>
      | Some i \<Rightarrow> i)"

text \<open>
  The \<open>try\<close> block of \<open>doWebsiteGeneration\<close>. The flag of the result is \<open>False\<close> when
  the block threw; the store and the trace are as the throw left them.
\<close>

definition generation_try ::
  "gen_outcomes \<Rightarrow> string \<Rightarrow> user_inputs option \<Rightarrow> string \<Rightarrow> user \<Rightarrow>
   users \<times> job_trace \<Rightarrow> bool \<times> users \<times> job_trace" where
  "generation_try oc rid userInputs walletAddress user st =
     (let db = fst st; t = snd st;
          inputs = or_empty userInputs
      in if falsy (coinName inputs) \<or> falsy (colorPalette inputs) then (False, db, t)
         else
           let t = assign (\<lambda>j. j\<lparr>progress := 10\<rparr>) t;
               t = assign (\<lambda>j. j\<lparr>progress := 20\<rparr>) t
           in case chat_completion oc of
                None \<Rightarrow> (False, db, t)
              | Some reply \<Rightarrow>
                  let siteCode = trim reply;
                      t = assign (\<lambda>j. j\<lparr>progress := 40\<rparr>) t;
                      t = assign (\<lambda>j. j\<lparr>progress := 45\<rparr>) t;
                      logo = (case logo_image oc of None \<Rightarrow> logo_fallback | Some b \<Rightarrow> data_url b);
                      t = assign (\<lambda>j. j\<lparr>progress := 55\<rparr>) t;
                      hero = (case hero_image oc of None \<Rightarrow> hero_fallback | Some b \<Rightarrow> data_url b);
                      imagesObj = \<lparr>navLogo = Some logo, heroBg = Some hero, footerImg = Some logo\<rparr>;
                      t = assign (\<lambda>j. j\<lparr>progress := 60\<rparr>) t;
                      siteCode = strip_fences siteCode;
                      t = assign (\<lambda>j. j\<lparr>code := Some siteCode\<rparr>) t;
                      t = assign (\<lambda>j. j\<lparr>images := imagesObj\<rparr>) t;
                      t = assign (\<lambda>j. j\<lparr>status := Done\<rparr>) t;
                      t = assign (\<lambda>j. j\<lparr>progress := 100\<rparr>) t;
                      user = user\<lparr>generatedFiles := generatedFiles user @
                               [\<lparr>requestId = rid, content = siteCode\<rparr>]\<rparr>
                  in if gen_save_ok oc then (True, db(walletAddress \<mapsto> user), t)
                     else (False, db, t))"

text \<open>
  \<open>doWebsiteGeneration\<close>: the \<open>catch\<close> block marks the entry as failed. The flag of the
  result says whether the promise is fulfilled (\<open>True\<close>) or rejected.
\<close>

definition doWebsiteGeneration ::
  "gen_outcomes \<Rightarrow> string \<Rightarrow> user_inputs option \<Rightarrow> string \<Rightarrow> user \<Rightarrow>
   users \<times> job_trace \<Rightarrow> bool \<times> users \<times> job_trace" where
  "doWebsiteGeneration oc rid userInputs walletAddress user st =
     (case generation_try oc rid userInputs walletAddress user st of
        (True, db, t) \<Rightarrow> (True, db, t)
      | (False, db, t) \<Rightarrow>
          let t = assign (\<lambda>j. j\<lparr>status := Error\<rparr>) t;
              t = assign (\<lambda>j. j\<lparr>progress := 100\<rparr>) t
          in (True, db, t))"

text \<open>
  \<open>POST /start-generation\<close> up to its response: the debit, the new entry of
  \<open>progressMap\<close>, the launch. The third component is what the background task was
  launched with: the request id and the debited user document.
\<close>

definition new_entry :: job where
  "new_entry = \<lparr>status = InProgress, progress = 0, code = None,
                 images = \<lparr>navLogo = None, heroBg = None, footerImg = None\<rparr>\<rparr>"

record start_request =
  req_walletAddress :: "string option"
  req_userInputs :: "user_inputs option"

definition start_generation ::
  "bool \<Rightarrow> string \<Rightarrow> start_request \<Rightarrow> world \<Rightarrow> response \<times> world \<times> (string \<times> user) option" where
  "start_generation debit_ok new_id req W =
     (if falsy (req_walletAddress req) \<or> req_userInputs req = None
      then (Status400 ''walletAddress and userInputs are required.'', W, None)
      else if \<not> debit_ok then (Status500 ''Internal server error.'', W, None)
      else
        let walletAddress = (case req_walletAddress req of None \<Rightarrow> [] | Some a \<Rightarrow> a)
        in case findOneAndUpdate (\<lambda>u. 1 \<le> credits u) (- 1) walletAddress (users W) of
             (None, db) \<Rightarrow>
               (Status400 ''Insufficient credits or invalid wallet address.'', W, None)
           | (Some user, db) \<Rightarrow>
               (StartedJob new_id,
                W\<lparr>users := db, progressMap := (progressMap W)(new_id \<mapsto> new_entry)\<rparr>,
                Some (new_id, user)))"

text \<open>
  The background task with the \<open>.catch\<close> handler that \<open>/start-generation\<close> attaches to
  it: the handler runs only when the promise of \<open>doWebsiteGeneration\<close> is rejected, marks
  the entry as failed and refunds the credit (\<open>refund_ok\<close>: the refunding update does not
  itself fail). The result is the world once the task has settled and the snapshots of
  the entry from its creation on. Without an entry for the request id every assignment
  throws before anything is changed.
\<close>

definition background_generation ::
  "gen_outcomes \<Rightarrow> bool \<Rightarrow> string \<Rightarrow> user_inputs option \<Rightarrow> string \<Rightarrow> user \<Rightarrow>
   world \<Rightarrow> world \<times> job list" where
  "background_generation oc refund_ok rid userInputs walletAddress user W =
     (case progressMap W rid of
        None \<Rightarrow> (W, [])
      | Some entry \<Rightarrow>
          (case doWebsiteGeneration oc rid userInputs walletAddress user (users W, (entry, [])) of
             (True, db, t) \<Rightarrow>
               (W\<lparr>users := db, progressMap := (progressMap W)(rid \<mapsto> fst t)\<rparr>, snapshots t)
           | (False, db, t) \<Rightarrow>
               let t = assign (\<lambda>j. j\<lparr>status := Error\<rparr>) t;
                   t = assign (\<lambda>j. j\<lparr>progress := 100\<rparr>) t;
                   db = (if refund_ok
                         then snd (findOneAndUpdate (\<lambda>u. True) 1 walletAddress db) else db)
               in (W\<lparr>users := db, progressMap := (progressMap W)(rid \<mapsto> fst t)\<rparr>,
                   snapshots t)))"

record start_outcomes =
  debit_ok :: bool
  new_requestId :: string
  generation :: gen_outcomes
  refund_ok :: bool

text \<open>A whole job: the request, then the background task until it settles.\<close>

definition start_job ::
  "start_outcomes \<Rightarrow> start_request \<Rightarrow> world \<Rightarrow> response \<times> world \<times> job list" where
  "start_job oc req W =
     (case start_generation (debit_ok oc) (new_requestId oc) req W of
        (resp, W1, None) \<Rightarrow> (resp, W1, [])
      | (resp, W1, Some (rid, user)) \<Rightarrow>
          let walletAddress = (case req_walletAddress req of None \<Rightarrow> [] | Some a \<Rightarrow> a);
              r = background_generation (generation oc) (refund_ok oc) rid (req_userInputs req)
                    walletAddress user W1
          in (resp, fst r, snd r))"

text \<open>\<open>GET /progress\<close>: the status and the progress of an entry, if there is one.\<close>

definition get_progress :: "world \<Rightarrow> string \<Rightarrow> (job_status \<times> nat) option" where
  "get_progress W rid = map_option (\<lambda>j. (status j, progress j)) (progressMap W rid)"

section \<open>Section refresh (\<open>POST /generate-section\<close>)\<close>

record section_request =
  sec_walletAddress :: "string option"
  sec_section :: "string option"

record section_outcomes =
  sec_findOne_ok :: bool
  sec_save_ok :: bool
  sec_completion :: "string option"
  sec_image :: "string option"

definition generate_section ::
  "section_outcomes \<Rightarrow> section_request \<Rightarrow> users \<Rightarrow> response \<times> users" where
  "generate_section oc req db =
     (if falsy (sec_walletAddress req) \<or> falsy (sec_section req)
      then (Status400 ''Missing walletAddress or section.'', db)
      else if \<not> sec_findOne_ok oc then (Status500 ''Internal server error.'', db)
      else
        let walletAddress = (case sec_walletAddress req of None \<Rightarrow> [] | Some a \<Rightarrow> a);
            section = (case sec_section req of None \<Rightarrow> [] | Some s \<Rightarrow> s)
        in case db walletAddress of
             None \<Rightarrow> (Status400 ''Invalid wallet address.'', db)
           | Some user \<Rightarrow>
               if credits user < 1 / 4
               then (Status400 ''Insufficient credits for a section refresh (need 0.25).'', db)
               else
                 let user = user\<lparr>credits := credits user - 1 / 4\<rparr>
                 in if \<not> sec_save_ok oc then (Status500 ''Internal server error.'', db)
                    else
                      let db = db(walletAddress \<mapsto> user)
                      in case sec_completion oc of
                           None \<Rightarrow> (Status500 ''Internal server error.'', db)
                         | Some reply \<Rightarrow>
                             let snippet = strip_fences (trim reply);
                                 sectionImage =
                                   (if toLowerCase section = ''nav'' \<or> toLowerCase section = ''hero''
                                    then map_option data_url (sec_image oc) else None)
                             in (SectionResult snippet sectionImage (credits user), db))"

section \<open>Vocabulary of the properties\<close>

text \<open>
  The transaction ids recorded for a user, the two conditions under which the scans look
  at an entry of a feed at all, and the record each scan appends for it.
\<close>

definition txids :: "user \<Rightarrow> string set" where
  "txids u = txid ` set (processedTransactions u)"

definition kasper_qualifies :: "string \<Rightarrow> krc20_op \<Rightarrow> bool" where
  "kasper_qualifies walletAddress tx =
     (case tx_op tx of None \<Rightarrow> False
      | Some opType \<Rightarrow> toLowerCase opType = ''transfer'' \<and> tx_to tx = walletAddress)"

definition kaspa_qualifies :: "string \<Rightarrow> kaspa_tx \<Rightarrow> bool" where
  "kaspa_qualifies kaspaAddress tx =
     (case outputs tx of None \<Rightarrow> False | Some outs \<Rightarrow> 0 < sumToUser kaspaAddress 0 outs)"

definition kasper_record :: "krc20_op \<Rightarrow> processed_transaction" where
  "kasper_record tx =
     \<lparr>txid = tx_hashRev tx, coinType = ''KASPER'',
      amount = js_div (parseInt (tx_amt tx)) (10 ^ 8),
      creditsAdded = js_mul (js_div (parseInt (tx_amt tx)) (10 ^ 8)) CREDIT_CONVERSION_KASPER\<rparr>"

definition kaspa_record :: "string \<Rightarrow> kaspa_tx \<Rightarrow> processed_transaction" where
  "kaspa_record kaspaAddress tx =
     (let s = sumToUser kaspaAddress 0 (case outputs tx of None \<Rightarrow> [] | Some outs \<Rightarrow> outs)
      in \<lparr>txid = tx_hash tx, coinType = ''KAS'', amount = s,
          creditsAdded = js_mul s CREDIT_CONVERSION_KAS\<rparr>)"

definition add_record :: "user \<Rightarrow> processed_transaction \<Rightarrow> user" where
  "add_record u r = u\<lparr>credits := js_add (credits u) (creditsAdded r),
                       processedTransactions := processedTransactions u @ [r]\<rparr>"


text \<open>The outputs of a native transaction, none when the field is missing.\<close>

definition outputs_of :: "kaspa_tx \<Rightarrow> kaspa_output list" where
  "outputs_of tx = (case outputs tx of None \<Rightarrow> [] | Some outs \<Rightarrow> outs)"







section \<open>Concrete inputs\<close>

text \<open>
  One wallet, feed entries (800 KASPER as \<open>800 * 10^8\<close> raw units, 800 raw units, a native
  transaction paying 3 + 2 KAS to the wallet and 7 KAS elsewhere, one paying nothing),
  users before and after a scan, and the answers of the providers when everything works,
  when the chat completion fails and when only the last \<open>save\<close> fails.
\<close>

definition alice :: string where
  "alice = ''kaspa:alice''"

definition token_800 :: krc20_op where
  "token_800 = \<lparr>tx_hashRev = ''aa'', tx_amt = 80000000000, tx_op = Some ''Transfer'',
                 tx_to = alice\<rparr>"

definition native_5 :: kaspa_tx where
  "native_5 = \<lparr>tx_hash = ''bb'', outputs = Some
      [\<lparr>script_public_key_address = alice, out_amount = 300000000\<rparr>,
       \<lparr>script_public_key_address = ''kaspa:bob'', out_amount = 700000000\<rparr>,
       \<lparr>script_public_key_address = alice, out_amount = 200000000\<rparr>]\<rparr>"




definition good_inputs :: user_inputs where
  "good_inputs = \<lparr>coinName = Some ''Kasper'', colorPalette = Some ''teal'',
                   projectDesc = Some ''a friendly ghost''\<rparr>"

definition paid_request :: start_request where
  "paid_request = \<lparr>req_walletAddress = Some alice, req_userInputs = Some good_inputs\<rparr>"

definition user_with :: "rat \<Rightarrow> user" where
  "user_with c = \<lparr>credits = c, generatedFiles = [], processedTransactions = []\<rparr>"

definition world_with :: "rat \<Rightarrow> world" where
  "world_with c = \<lparr>users = [alice \<mapsto> user_with c], progressMap = Map.empty\<rparr>"

definition primary_fails :: start_outcomes where
  "primary_fails =
     \<lparr>debit_ok = True, new_requestId = ''r1'',
      generation = \<lparr>chat_completion = None, logo_image = None, hero_image = None,
                    gen_save_ok = True\<rparr>,
      refund_ok = True\<rparr>"

definition save_fails :: start_outcomes where
  "save_fails =
     \<lparr>debit_ok = True, new_requestId = ''r1'',
      generation = \<lparr>chat_completion = Some '' <html></html> '', logo_image = Some ''AAAA'',
                    hero_image = None, gen_save_ok = False\<rparr>,
      refund_ok = True\<rparr>"

definition all_succeed :: start_outcomes where
  "all_succeed =
     \<lparr>debit_ok = True, new_requestId = ''r1'',
      generation = \<lparr>chat_completion = Some '' <html></html> '', logo_image = Some ''AAAA'',
                    hero_image = Some ''BBBB'', gen_save_ok = True\<rparr>,
      refund_ok = True\<rparr>"

definition section_request_for :: "string \<Rightarrow> string \<Rightarrow> section_request" where
  "section_request_for w s = \<lparr>sec_walletAddress = Some w, sec_section = Some s\<rparr>"

definition content_fails :: section_outcomes where
  "content_fails = \<lparr>sec_findOne_ok = True, sec_save_ok = True, sec_completion = None,
                     sec_image = None\<rparr>"

definition recorded_native :: user where
  "recorded_native = \<lparr>credits = 5, generatedFiles = [],
     processedTransactions =
       [\<lparr>txid = ''aa'', coinType = ''KAS'', amount = 5, creditsAdded = 5\<rparr>]\<rparr>"

definition recorded_token :: user where
  "recorded_token = \<lparr>credits = 1, generatedFiles = [],
     processedTransactions =
       [\<lparr>txid = ''aa'', coinType = ''KASPER'', amount = 800, creditsAdded = 1\<rparr>]\<rparr>"





section \<open>Unfolding the model on concrete inputs\<close>


lemmas job_eval = start_job_def start_generation_def background_generation_def
  doWebsiteGeneration_def generation_try_def findOneAndUpdate_def falsy_def or_empty_def
  new_entry_def get_progress_def trim_def is_space_def strip_fences_def data_url_def
  Let_def

lemmas job_examples = alice_def good_inputs_def paid_request_def user_with_def world_with_def
  primary_fails_def save_fails_def all_succeed_def

lemmas section_eval = generate_section_def falsy_def toLowerCase_def lower_char_def
  trim_def is_space_def strip_fences_def data_url_def Let_def

lemmas step_eval = kasper_step_def kaspa_step_def alreadyProcessed_def toLowerCase_def
  lower_char_def CREDIT_CONVERSION_KAS_def CREDIT_CONVERSION_KASPER_def kasper_qualifies_def
  kaspa_qualifies_def kasper_record_def kaspa_record_def add_record_def outputs_of_def Let_def

section \<open>Rounding to binary64\<close>

text \<open>
  The rounding is to an integer multiple of the unit in the last place and off by at
  most half of it; \<open>ilog2\<close> is the binary exponent.
\<close>

lemma round_half_even_error: "\<bar>of_int (round_half_even q) - q\<bar> \<le> 1 / 2"
  unfolding round_half_even_def Let_def by (auto simp: abs_if) linarith+

lemma fl_error:
  "\<bar>fl x - x\<bar> \<le> 2 powi (max (ilog2 \<bar>x\<bar>) (- 1022) - 53)"
proof (cases "x = 0")
  case True
  then show ?thesis by (simp add: fl_def)
next
  case False
  define ulp :: rat where "ulp = 2 powi (max (ilog2 \<bar>x\<bar>) (- 1022) - 52)"
  have pos: "0 < ulp" by (simp add: ulp_def)
  have "fl x - x = (of_int (round_half_even (x / ulp)) - x / ulp) * ulp"
    using False pos by (simp add: fl_def ulp_def Let_def field_simps)
  then have "\<bar>fl x - x\<bar> = \<bar>of_int (round_half_even (x / ulp)) - x / ulp\<bar> * ulp"
    using pos by (simp add: abs_mult)
  also have "\<dots> \<le> 1 / 2 * ulp"
    using round_half_even_error [of "x / ulp"] pos by (simp add: mult_right_mono)
  also have "1 / 2 * ulp = 2 powi (max (ilog2 \<bar>x\<bar>) (- 1022) - 53)"
    unfolding ulp_def
    by (simp add: power_int_diff) 
  finally show ?thesis .
qed

lemma bitlen_rat_bounds:
  assumes "0 < p"
  shows "2 powi (bitlen p - 1) \<le> (of_int p :: rat)" and "(of_int p :: rat) < 2 powi bitlen p"
proof -
  have b: "1 \<le> bitlen p" using assms by (simp add: bitlen_alt_def)
  from bitlen_bounds [OF assms]
  have "(2::int) ^ nat (bitlen p - 1) \<le> p" "p < 2 ^ nat (bitlen p)" by auto
  then have "(of_int ((2::int) ^ nat (bitlen p - 1)) :: rat) \<le> of_int p"
    "(of_int p :: rat) < of_int (2 ^ nat (bitlen p))"
    by (simp_all only: of_int_le_iff of_int_less_iff)
  then show "2 powi (bitlen p - 1) \<le> (of_int p :: rat)" "(of_int p :: rat) < 2 powi bitlen p"
    using b by (simp_all add: power_int_def)
qed

lemma ilog2_bounds:
  assumes "0 < a"
  shows "2 powi (ilog2 a) \<le> a \<and> a < 2 powi (ilog2 a + 1)"
proof -
  obtain p q where pq: "quotient_of a = (p, q)" by (cases "quotient_of a")
  have q: "0 < q" using pq by (rule quotient_of_denom_pos)
  have a: "a = of_int p / of_int q" using pq by (rule quotient_of_div)
  have p: "0 < p" using assms q unfolding a by (simp add: zero_less_divide_iff)
  define k where "k = bitlen p - bitlen q"
  note bp = bitlen_rat_bounds [OF p] and bq = bitlen_rat_bounds [OF q]
  have qpos: "0 < (of_int q :: rat)" using q by simp
  have "a < 2 powi bitlen p / 2 powi (bitlen q - 1)"
    unfolding a using bp(2) bq(1) qpos p
    by (intro frac_less) (simp_all)
  also have "\<dots> = 2 powi (k + 1)"
    by (simp add: k_def power_int_diff power_int_add)
  finally have up: "a < 2 powi (k + 1)" .
  have "2 powi (bitlen p - 1) / 2 powi bitlen q < a"
    unfolding a using bp(1) bq(2) qpos p
    by (intro frac_less2) (simp_all)
  moreover have "2 powi (bitlen p - 1) / 2 powi bitlen q = (2::rat) powi (k - 1)"
    by (simp add: k_def power_int_diff)
  ultimately have lo: "2 powi (k - 1) < a" by simp
  have e: "ilog2 a = (if 2 powi k \<le> a then k else k - 1)"
    by (simp add: ilog2_def pq k_def Let_def)
  show ?thesis
    using up lo unfolding e by auto
qed



section \<open>The deposit scans\<close>

lemma alreadyProcessed_iff: "alreadyProcessed u h \<longleftrightarrow> h \<in> txids u"
  by (auto simp: alreadyProcessed_def txids_def list_ex_iff)

lemma kasper_step_eq:
  "kasper_step w u tx =
     (case tx_op tx of None \<Rightarrow> None
      | Some opType \<Rightarrow>
          Some (if kasper_qualifies w tx \<and> tx_hashRev tx \<notin> txids u
                then add_record u (kasper_record tx) else u))"
  by (simp add: kasper_step_def kasper_qualifies_def alreadyProcessed_iff add_record_def
      kasper_record_def Let_def split: option.splits)

lemma kaspa_step_eq:
  "kaspa_step w u tx =
     (if kaspa_qualifies w tx \<and> tx_hash tx \<notin> txids u
      then add_record u (kaspa_record w tx) else u)"
  by (simp add: kaspa_step_def kaspa_qualifies_def alreadyProcessed_iff add_record_def
      kaspa_record_def Let_def split: option.splits list.splits)


lemma txid_kasper_record [simp]: "txid (kasper_record tx) = tx_hashRev tx"
  by (simp add: kasper_record_def)

lemma txid_kaspa_record [simp]: "txid (kaspa_record w tx) = tx_hash tx"
  by (simp add: kaspa_record_def Let_def)
























section \<open>Conversion of amounts\<close>


lemma add_record_neq: "add_record u r \<noteq> u"
proof
  assume "add_record u r = u"
  then have "length (processedTransactions (add_record u r)) = length (processedTransactions u)"
    by simp
  then show False by (simp add: add_record_def)
qed




section \<open>Which entries are credited\<close>













section \<open>The key of the deduplication\<close>

text \<open>
  Claim C10, as stated, fails: with a native deposit \<open>aa\<close> recorded, a qualifying token
  deposit with the same id \<open>aa\<close> is skipped, although no token deposit with that id is
  recorded.
\<close>

theorem token_skipped_after_native_with_same_id:
  "kasper_qualifies alice token_800 \<and>
   tx_hashRev token_800 = ''aa'' \<and>
   map (\<lambda>t. (txid t, coinType t)) (processedTransactions recorded_native) = [(''aa'', ''KAS'')] \<and>
   processUserKasperDeposits (Some \<lparr>message = ''successful'', result = Some [token_800]\<rparr>)
     alice recorded_native = recorded_native"
  by (simp add: processUserKasperDeposits_def step_eval token_800_def recorded_native_def
      alice_def)

text \<open>
  Claim C10, amended. Deposits are deduplicated by the transaction id alone, whatever
  the coin type of the record that holds it: an entry of either feed whose id equals the
  id of a recorded deposit of the account is skipped.
\<close>

theorem deduplicated_by_txid_alone:
  assumes "r \<in> set (processedTransactions u)"
  shows "(txid r = tx_hashRev tx \<longrightarrow> kasper_loop w u [tx] = u) \<and>
         (txid r = tx_hash ktx \<longrightarrow> kaspa_loop w u [ktx] = u)"
proof -
  have "txid r \<in> txids u" using assms by (simp add: txids_def)
  then show ?thesis
    by (auto simp: kasper_step_eq kaspa_step_eq split: option.splits)
qed

theorem deduplicated_by_txid_alone_witness:
  "\<lparr>txid = ''aa'', coinType = ''KAS'', amount = 5, creditsAdded = 5\<rparr>
     \<in> set (processedTransactions recorded_native) \<and>
   tx_hashRev token_800 = ''aa'' \<and>
   kasper_loop alice recorded_native [token_800] = recorded_native \<and>
   \<lparr>txid = ''aa'', coinType = ''KASPER'', amount = 800, creditsAdded = 1\<rparr>
     \<in> set (processedTransactions recorded_token) \<and>
   kaspa_loop alice recorded_token [native_5\<lparr>tx_hash := ''aa''\<rparr>] = recorded_token"
proof -
  have a: "\<lparr>txid = ''aa'', coinType = ''KAS'', amount = 5, creditsAdded = 5\<rparr>
     \<in> set (processedTransactions recorded_native)"
    by (simp add: recorded_native_def)
  have b: "\<lparr>txid = ''aa'', coinType = ''KASPER'', amount = 800, creditsAdded = 1\<rparr>
     \<in> set (processedTransactions recorded_token)"
    by (simp add: recorded_token_def)
  have c: "tx_hashRev token_800 = ''aa''" by (simp add: token_800_def)
  show ?thesis
    using a b c
      deduplicated_by_txid_alone [OF a, where tx = token_800 and ktx = native_5 and w = alice]
      deduplicated_by_txid_alone [OF b, where tx = token_800 and
        ktx = "native_5\<lparr>tx_hash := ''aa''\<rparr>" and w = alice]
    by simp
qed

section \<open>The background generation\<close>

lemma doWebsiteGeneration_fulfilled:
  "fst (doWebsiteGeneration oc rid ui w user st) = True"
  by (simp add: doWebsiteGeneration_def Let_def split: prod.splits bool.splits)

lemma generation_try_missing:
  "falsy (coinName (or_empty ui)) \<or> falsy (colorPalette (or_empty ui)) \<Longrightarrow>
   generation_try oc rid ui w user (db, t) = (False, db, t)"
  by (simp add: generation_try_def)

lemma generation_try_no_reply:
  "\<not> (falsy (coinName (or_empty ui)) \<or> falsy (colorPalette (or_empty ui))) \<Longrightarrow>
   chat_completion oc = None \<Longrightarrow>
   generation_try oc rid ui w user (db, (e, [])) =
     (False, db, (e\<lparr>progress := 20\<rparr>, [e\<lparr>progress := 10\<rparr>, e]))"
  by (simp add: generation_try_def)

lemma generation_try_reply:
  assumes "\<not> (falsy (coinName (or_empty ui)) \<or> falsy (colorPalette (or_empty ui)))"
    and "chat_completion oc = Some reply"
    and "generation_try oc rid ui w user (db, (e, [])) = (ok, db', t)"
  shows "ok = gen_save_ok oc"
    and "map progress (snapshots t) = [progress e, 10, 20, 40, 45, 55, 60, 60, 60, 60, 100]"
    and "map status (snapshots t) =
           [status e, status e, status e, status e, status e, status e, status e, status e,
            status e, Done, Done]"
    and "map code (snapshots t) =
           [code e, code e, code e, code e, code e, code e, code e,
            Some (strip_fences (trim reply)), Some (strip_fences (trim reply)),
            Some (strip_fences (trim reply)), Some (strip_fences (trim reply))]"
    and "db' = (if ok then db(w \<mapsto> user\<lparr>generatedFiles := generatedFiles user @
                   [\<lparr>requestId = rid, content = strip_fences (trim reply)\<rparr>]\<rparr>) else db)"
  using assms by (auto simp add: generation_try_def Let_def split: if_splits)


lemma snapshots_assign: "snapshots (assign f t) = snapshots t @ [f (fst t)]"
  by (cases t) simp

lemma fst_assign: "fst (assign f t) = f (fst t)"
  by (cases t) simp

lemma last_snapshots: "last (snapshots t) = fst t"
  by (cases t) simp

text \<open>The four ways a background generation can go, as the entry's progress and status
  after each assignment and the store it leaves.\<close>

lemma doWebsiteGeneration_trace:
  assumes run: "doWebsiteGeneration oc rid ui w user (db, (e, [])) = (ok, db', t)"
  shows "ok \<and>
    ((map progress (snapshots t) = [progress e, progress e, 100] \<and>
      map status (snapshots t) = [status e, Error, Error] \<and> db' = db \<and>
      (falsy (coinName (or_empty ui)) \<or> falsy (colorPalette (or_empty ui)))) \<or>
     (map progress (snapshots t) = [progress e, 10, 20, 20, 100] \<and>
      map status (snapshots t) = [status e, status e, status e, Error, Error] \<and> db' = db \<and>
      chat_completion oc = None) \<or>
     (map progress (snapshots t) = [progress e, 10, 20, 40, 45, 55, 60, 60, 60, 60, 100] \<and>
      map status (snapshots t) =
        [status e, status e, status e, status e, status e, status e, status e, status e,
         status e, Done, Done] \<and>
      (\<exists>c. db' = db(w \<mapsto> user\<lparr>generatedFiles := generatedFiles user @
                   [\<lparr>requestId = rid, content = c\<rparr>]\<rparr>)) \<and> gen_save_ok oc) \<or>
     (map progress (snapshots t) =
        [progress e, 10, 20, 40, 45, 55, 60, 60, 60, 60, 100, 100, 100] \<and>
      map status (snapshots t) =
        [status e, status e, status e, status e, status e, status e, status e, status e,
         status e, Done, Done, Error, Error] \<and> db' = db \<and> \<not> gen_save_ok oc \<and>
      chat_completion oc \<noteq> None))"
proof (cases "falsy (coinName (or_empty ui)) \<or> falsy (colorPalette (or_empty ui))")
  case True
  show ?thesis
    using run True by (auto simp: doWebsiteGeneration_def generation_try_missing)
next
  case False
  show ?thesis
  proof (cases "chat_completion oc")
    case None
    show ?thesis
      using run None
      by (auto simp: doWebsiteGeneration_def generation_try_no_reply [OF False None])
  next
    case (Some reply)
    obtain ok1 db1 t1 where g: "generation_try oc rid ui w user (db, (e, [])) = (ok1, db1, t1)"
      by (cases "generation_try oc rid ui w user (db, (e, []))") auto
    note r = generation_try_reply [OF False Some g]
    show ?thesis
    proof (cases ok1)
      case True
      then have "t = t1" "db' = db1" "ok"
        using run g by (auto simp: doWebsiteGeneration_def)
      then show ?thesis using r True by auto
    next
      case False
      have p1: "progress (fst t1) = 100"
        using r(2) last_snapshots [of t1] last_map [of "snapshots t1" progress]
        by (cases t1) auto
      have t: "t = assign (\<lambda>j. j\<lparr>progress := 100\<rparr>) (assign (\<lambda>j. j\<lparr>status := Error\<rparr>) t1)"
        "db' = db1" "ok"
        using run g False by (auto simp: doWebsiteGeneration_def)
      show ?thesis
        using r False Some p1 t(2,3) unfolding t(1)
        by (simp add: snapshots_assign fst_assign)
    qed
  qed
qed

lemma start_job_started:
  assumes "start_job oc req W = (StartedJob rid, W', tr)"
  shows "\<exists>w u db' t.
      req_walletAddress req = Some w \<and> users W w = Some u \<and> 1 \<le> credits u \<and>
      rid = new_requestId oc \<and>
      doWebsiteGeneration (generation oc) rid (req_userInputs req) w (u\<lparr>credits := credits u - 1\<rparr>)
        ((users W)(w \<mapsto> u\<lparr>credits := credits u - 1\<rparr>), (new_entry, [])) = (True, db', t) \<and>
      W' = W\<lparr>users := db', progressMap := (progressMap W)(rid \<mapsto> fst t)\<rparr> \<and>
      tr = snapshots t"
proof -
  from assms obtain w where w: "req_walletAddress req = Some w"
    by (auto simp: start_job_def start_generation_def falsy_def split: if_splits)
  from assms w obtain u where u: "users W w = Some u" "1 \<le> credits u"
    by (auto simp: start_job_def start_generation_def findOneAndUpdate_def Let_def
        split: if_splits option.splits)
  let ?u = "u\<lparr>credits := credits u - 1\<rparr>"
  let ?db = "(users W)(w \<mapsto> ?u)"
  have sg: "start_generation (debit_ok oc) (new_requestId oc) req W =
      (StartedJob (new_requestId oc),
       W\<lparr>users := ?db, progressMap := (progressMap W)(new_requestId oc \<mapsto> new_entry)\<rparr>,
       Some (new_requestId oc, ?u))"
    using assms w u
    by (auto simp: start_job_def start_generation_def findOneAndUpdate_def Let_def
        split: if_splits)
  obtain ok db' t where d: "doWebsiteGeneration (generation oc) (new_requestId oc)
      (req_userInputs req) w ?u (?db, (new_entry, [])) = (ok, db', t)"
    using prod_cases3 by blast
  have ok: "ok" using doWebsiteGeneration_fulfilled [of "generation oc" "new_requestId oc"
        "req_userInputs req" w ?u "(?db, (new_entry, []))"] d by simp
  show ?thesis
    using assms w u d ok
    by (cases t) (auto simp: start_job_def sg background_generation_def)
qed

lemma start_job_never_refunds:
  assumes "start_job oc req W = (StartedJob rid, W', tr)"
    and "req_walletAddress req = Some w" and "users W w = Some u"
  shows "\<exists>u'. users W' w = Some u' \<and> credits u' = credits u - 1"
proof -
  from start_job_started [OF assms(1)] assms(2,3) obtain db' t where
    d: "doWebsiteGeneration (generation oc) rid (req_userInputs req) w (u\<lparr>credits := credits u - 1\<rparr>)
        ((users W)(w \<mapsto> u\<lparr>credits := credits u - 1\<rparr>), (new_entry, [])) = (True, db', t)"
    and W': "W' = W\<lparr>users := db', progressMap := (progressMap W)(rid \<mapsto> fst t)\<rparr>"
    by auto
  from doWebsiteGeneration_trace [OF d]
  have "db' = (users W)(w \<mapsto> u\<lparr>credits := credits u - 1\<rparr>) \<or>
        (\<exists>c. db' = (users W)(w \<mapsto> u\<lparr>credits := credits u - 1,
                 generatedFiles := generatedFiles u @ [\<lparr>requestId = rid, content = c\<rparr>]\<rparr>))"
    by auto
  then show ?thesis using W' by auto
qed

text \<open>
  Claim C8. For every job that was started, the values written to its progress never
  decrease: the list of the entry's progress after each assignment is sorted, starts at 0
  and ends at 100, the job ends as done or as failed, and \<open>GET /progress\<close> then reports
  that status with progress 100.
\<close>

theorem progress_never_decreases:
  assumes "fst (start_job oc req W) = StartedJob rid"
  shows "sorted (map progress (snd (snd (start_job oc req W)))) \<and>
         hd (map progress (snd (snd (start_job oc req W)))) = 0 \<and>
         last (map progress (snd (snd (start_job oc req W)))) = 100 \<and>
         last (map status (snd (snd (start_job oc req W)))) \<in> {Done, Error} \<and>
         get_progress (fst (snd (start_job oc req W))) rid =
           Some (last (map status (snd (snd (start_job oc req W)))), 100)"
proof -
  obtain W' tr where sj: "start_job oc req W = (StartedJob rid, W', tr)"
    using assms by (cases "start_job oc req W") auto
  from start_job_started [OF sj] obtain w u db' t where
    d: "doWebsiteGeneration (generation oc) rid (req_userInputs req) w (u\<lparr>credits := credits u - 1\<rparr>)
        ((users W)(w \<mapsto> u\<lparr>credits := credits u - 1\<rparr>), (new_entry, [])) = (True, db', t)"
    and W': "W' = W\<lparr>users := db', progressMap := (progressMap W)(rid \<mapsto> fst t)\<rparr>"
    and tr: "tr = snapshots t"
    by auto
  have ne: "snapshots t \<noteq> []" by (cases t) simp
  have gp: "get_progress W' rid =
      Some (last (map status (snapshots t)), last (map progress (snapshots t)))"
    using W' ne by (simp add: get_progress_def last_map last_snapshots)
  have e: "progress new_entry = 0" "status new_entry = InProgress"
    by (simp_all add: new_entry_def)
  from doWebsiteGeneration_trace [OF d]
  have "sorted (map progress (snapshots t)) \<and> hd (map progress (snapshots t)) = 0 \<and>
        last (map progress (snapshots t)) = 100 \<and>
        last (map status (snapshots t)) \<in> {Done, Error}"
    unfolding e by (elim conjE disjE) simp_all
  then show ?thesis using gp by (simp add: sj tr)
qed

theorem progress_never_decreases_witness:
  "fst (start_job all_succeed paid_request (world_with 1)) = StartedJob ''r1'' \<and>
   map progress (snd (snd (start_job all_succeed paid_request (world_with 1)))) =
     [0, 10, 20, 40, 45, 55, 60, 60, 60, 60, 100] \<and>
   sorted (map progress (snd (snd (start_job all_succeed paid_request (world_with 1))))) \<and>
   get_progress (fst (snd (start_job all_succeed paid_request (world_with 1)))) ''r1'' =
     Some (Done, 100)"
proof -
  have h: "fst (start_job all_succeed paid_request (world_with 1)) = StartedJob ''r1''"
    by (simp add: job_eval job_examples)
  have p: "map progress (snd (snd (start_job all_succeed paid_request (world_with 1)))) =
     [0, 10, 20, 40, 45, 55, 60, 60, 60, 60, 100]"
    by (simp add: job_eval job_examples)
  have s: "last (map status (snd (snd (start_job all_succeed paid_request (world_with 1))))) = Done"
    by (simp add: job_eval job_examples)
  show ?thesis using h p s progress_never_decreases [OF h] by simp
qed

text \<open>
  Claim C1, on the input where it fails. The balance is 1, the job is started, the chat
  completion fails: the job ends as failed with progress 100 and the balance is 0, the
  debit is not undone. \<open>doWebsiteGeneration\<close> catches its own errors, so its promise is
  never rejected and the refund in the \<open>.catch\<close> handler of \<open>/start-generation\<close> never
  runs (\<open>start_job_never_refunds\<close> is the general fact).
\<close>

theorem primary_failure_is_not_refunded:
  "map_option credits (users (world_with 1) alice) = Some 1 \<and>
   fst (start_job primary_fails paid_request (world_with 1)) = StartedJob ''r1'' \<and>
   get_progress (fst (snd (start_job primary_fails paid_request (world_with 1)))) ''r1'' =
     Some (Error, 100) \<and>
   map_option credits (users (fst (snd (start_job primary_fails paid_request (world_with 1)))) alice) =
     Some 0"
  by (simp add: job_eval job_examples)

text \<open>
  Claim C7, on the input where it fails. Every provider answers and only the final
  \<open>user.save()\<close> fails: the entry is set to done with progress 100, and after that the
  \<open>catch\<close> block sets it to failed.
\<close>

theorem done_job_turns_to_error:
  "fst (start_job save_fails paid_request (world_with 1)) = StartedJob ''r1'' \<and>
   map status (snd (snd (start_job save_fails paid_request (world_with 1)))) =
     [InProgress, InProgress, InProgress, InProgress, InProgress, InProgress, InProgress,
      InProgress, InProgress, Done, Done, Error, Error] \<and>
   get_progress (fst (snd (start_job save_fails paid_request (world_with 1)))) ''r1'' =
     Some (Error, 100)"
  by (simp add: job_eval job_examples)

section \<open>Debits\<close>

text \<open>
  Claim C3. With the store answering, the debit of \<open>/start-generation\<close> takes 1 credit
  exactly when the balance is at least 1 and otherwise answers 400 (insufficient
  credits) and changes nothing; the debit of \<open>/generate-section\<close> takes 0.25 exactly when
  the balance is at least 0.25 and otherwise answers 400 (insufficient credits) and leaves
  the store as it was; neither makes a non-negative balance negative.
\<close>

theorem debit_only_when_funded:
  assumes "users W w = Some u" and "w \<noteq> []"
    and "req_walletAddress req = Some w" and "req_userInputs req \<noteq> None"
    and "sec_walletAddress sreq = Some w" and "sec_section sreq = Some s" and "s \<noteq> []"
    and "sec_findOne_ok soc" and "sec_save_ok soc"
  shows "start_generation True rid req W =
           (if 1 \<le> credits u
            then (StartedJob rid,
                  W\<lparr>users := (users W)(w \<mapsto> u\<lparr>credits := credits u - 1\<rparr>),
                    progressMap := (progressMap W)(rid \<mapsto> new_entry)\<rparr>,
                  Some (rid, u\<lparr>credits := credits u - 1\<rparr>))
            else (Status400 ''Insufficient credits or invalid wallet address.'', W, None)) \<and>
         snd (generate_section soc sreq (users W)) =
           (if 1 / 4 \<le> credits u then (users W)(w \<mapsto> u\<lparr>credits := credits u - 1 / 4\<rparr>)
            else users W) \<and>
         (credits u < 1 / 4 \<longrightarrow>
            fst (generate_section soc sreq (users W)) =
              Status400 ''Insufficient credits for a section refresh (need 0.25).'') \<and>
         (0 \<le> credits u \<longrightarrow>
            (\<forall>u'. users (fst (snd (start_generation True rid req W))) w = Some u' \<longrightarrow>
                  0 \<le> credits u') \<and>
            (\<forall>u'. snd (generate_section soc sreq (users W)) w = Some u' \<longrightarrow> 0 \<le> credits u'))"
proof -
  have a: "start_generation True rid req W =
           (if 1 \<le> credits u
            then (StartedJob rid,
                  W\<lparr>users := (users W)(w \<mapsto> u\<lparr>credits := credits u - 1\<rparr>),
                    progressMap := (progressMap W)(rid \<mapsto> new_entry)\<rparr>,
                  Some (rid, u\<lparr>credits := credits u - 1\<rparr>))
            else (Status400 ''Insufficient credits or invalid wallet address.'', W, None))"
    using assms(1-4) by (simp add: start_generation_def findOneAndUpdate_def falsy_def Let_def)
  have b: "snd (generate_section soc sreq (users W)) =
           (if 1 / 4 \<le> credits u then (users W)(w \<mapsto> u\<lparr>credits := credits u - 1 / 4\<rparr>)
            else users W)"
    using assms(1,2,5-9)
    by (simp add: generate_section_def falsy_def Let_def split: option.splits)
  have c: "credits u < 1 / 4 \<Longrightarrow>
            fst (generate_section soc sreq (users W)) =
              Status400 ''Insufficient credits for a section refresh (need 0.25).''"
    using assms(1,2,5-9) by (simp add: generate_section_def falsy_def)
  show ?thesis unfolding b using a c assms(1) by (auto split: if_splits)
qed

text \<open>
  At a balance of 0.2 the section refresh is refused and the balance stays 0.2, and so
  is the job; at a balance of 1 they leave 0.75 and 0.
\<close>

theorem debit_only_when_funded_witness:
  "generate_section content_fails (section_request_for alice ''hero'') (users (world_with (1 / 5))) =
     (Status400 ''Insufficient credits for a section refresh (need 0.25).'',
      users (world_with (1 / 5))) \<and>
   fst (start_generation True ''r1'' paid_request (world_with (1 / 5))) =
     Status400 ''Insufficient credits or invalid wallet address.'' \<and>
   map_option credits (snd (generate_section content_fails (section_request_for alice ''hero'')
       (users (world_with 1))) alice) = Some (3 / 4) \<and>
   map_option credits (users (fst (snd (start_generation True ''r1'' paid_request (world_with 1))))
       alice) = Some 0"
proof -
  have h: "users (world_with c) alice = Some (user_with c)" "alice \<noteq> []"
    "req_walletAddress paid_request = Some alice" "req_userInputs paid_request \<noteq> None"
    "sec_walletAddress (section_request_for alice ''hero'') = Some alice"
    "sec_section (section_request_for alice ''hero'') = Some ''hero''" "''hero'' \<noteq> []"
    "sec_findOne_ok content_fails" "sec_save_ok content_fails" for c
    by (simp_all add: job_examples section_request_for_def content_fails_def)
  note hl = h(1) [of "1 / 5"] and h1 = h(1) [of 1]
  note low = debit_only_when_funded [OF hl h(2) h(3) h(4) h(5) h(6) h(7) h(8) h(9),
      where rid = "''r1''"]
  note one = debit_only_when_funded [OF h1 h(2) h(3) h(4) h(5) h(6) h(7) h(8) h(9),
      where rid = "''r1''"]
  have c: "credits (user_with c) = c" for c by (simp add: user_with_def)
  have p: "fst (generate_section content_fails (section_request_for alice ''hero'')
      (users (world_with (1 / 5)))) =
    Status400 ''Insufficient credits for a section refresh (need 0.25).''"
    using low by (simp add: c)
  have q: "snd (generate_section content_fails (section_request_for alice ''hero'')
      (users (world_with (1 / 5)))) = users (world_with (1 / 5))"
    using low by (simp add: c)
  have r: "fst (start_generation True ''r1'' paid_request (world_with (1 / 5))) =
     Status400 ''Insufficient credits or invalid wallet address.''"
    using low by (simp add: c)
  have s: "map_option credits (snd (generate_section content_fails
      (section_request_for alice ''hero'') (users (world_with 1))) alice) = Some (3 / 4)"
    using one by (simp add: c)
  have t: "map_option credits (users (fst (snd (start_generation True ''r1'' paid_request
      (world_with 1)))) alice) = Some 0"
    using one by (simp add: c)
  show ?thesis using p q r s t by (simp add: prod_eq_iff)
qed

text \<open>
  Claim C4, on the input where it fails. The balance is 1, the debit of 0.25 is saved,
  the content request fails: the caller gets the 500 error and the balance stays at
  0.75, nothing is refunded.
\<close>

theorem failed_refresh_is_not_refunded:
  "map_option credits (users (world_with 1) alice) = Some 1 \<and>
   fst (generate_section content_fails (section_request_for alice ''hero'') (users (world_with 1))) =
     Status500 ''Internal server error.'' \<and>
   map_option credits (snd (generate_section content_fails (section_request_for alice ''hero'')
       (users (world_with 1))) alice) = Some (3 / 4)"
  by (simp add: section_eval job_examples section_request_for_def content_fails_def)

end
